theory Spec2Isabelle
  imports Main
begin

section \<open>The login page (src/unnamed/part_000)\<close>

subsection \<open>Component state, props and the collaborators it touches\<close>

text \<open>
  \<^verbatim>\<open>LoginState\<close>, field for field, and the initial value of the class property
  \<^verbatim>\<open>state\<close>.
\<close>

record LoginState =
  username :: string
  password :: string
  error :: bool
  cookiesEnabled :: bool
  ldapAuth :: bool

definition initialState :: LoginState where
  "initialState =
     \<lparr>username = '''', password = '''', error = False, cookiesEnabled = False, ldapAuth = False\<rparr>"

text \<open>
  \<^verbatim>\<open>LoginProps\<close>: of \<^verbatim>\<open>location\<close> the component reads only
  \<^verbatim>\<open>location.state\<close>, which is absent (\<open>None\<close>) or an object
  \<^verbatim>\<open>{ from: Location }\<close>, and of that only \<^verbatim>\<open>from.pathname\<close>. The
  \<^verbatim>\<open>history\<close> prop is used for \<^verbatim>\<open>history.push\<close> alone, which is recorded in
  the environment below.
\<close>

record Location =
  pathname :: string

record LocationState =
  from_location :: Location

record LoginProps =
  location_state :: "LocationState option"

text \<open>
  Calls of the \<^verbatim>\<open>api\<close> module. Each constructor carries exactly the arguments the
  source passes, so the list of calls issued is what leaves the component.
\<close>

datatype request =
    CheckAuthMode
  | Authenticate string
  | AuthenticateLdap string string
  | GetStatus
  | GetPreferences

text \<open>
  Everything outside the component that its methods read or write:
  \<^verbatim>\<open>api.loggedIn\<close>, the API calls issued (oldest first), the assignments to
  \<^verbatim>\<open>document.cookie\<close> and the calls of \<^verbatim>\<open>history.push\<close>.
\<close>

record Env =
  loggedIn :: bool
  requests :: "request list"
  cookie :: "string list"
  pushed :: "string list"

subsection \<open>Lifecycle and handlers\<close>

text \<open>
  \<^verbatim>\<open>componentWillMount\<close>: the argument \<open>cookieEnabled\<close> is
  \<^verbatim>\<open>navigator.cookieEnabled\<close>. The probe \<^verbatim>\<open>api.checkAuthMode()\<close> is called on
  every path; its \<^verbatim>\<open>then\<close> callback is \<open>checkAuthMode_then\<close>, run when the promise
  resolves with \<^verbatim>\<open>auth.mode\<close>.
\<close>

definition componentWillMount :: "bool \<Rightarrow> LoginState \<times> Env \<Rightarrow> LoginState \<times> Env" where
  "componentWillMount cookieEnabled c =
     (case c of (s, w) \<Rightarrow>
        ((if cookieEnabled then s\<lparr>cookiesEnabled := True\<rparr> else s),
         w\<lparr>requests := requests w @ [CheckAuthMode]\<rparr>))"

definition checkAuthMode_then :: "string \<Rightarrow> LoginState \<Rightarrow> LoginState" where
  "checkAuthMode_then mode s = s\<lparr>ldapAuth := (mode = ''ldap'')\<rparr>"

definition handlePasswordChange :: "string \<Rightarrow> LoginState \<Rightarrow> LoginState" where
  "handlePasswordChange v s = s\<lparr>password := v\<rparr>"

definition handleUsernameChange :: "string \<Rightarrow> LoginState \<Rightarrow> LoginState" where
  "handleUsernameChange v s = s\<lparr>username := v\<rparr>"

text \<open>
  \<^verbatim>\<open>authenticate\<close>, the part that runs inside the submit event. \<open>sha256\<close> stands
  for \<^verbatim>\<open>s => sha("sha256").update(s).digest("hex")\<close> of the library sha.js, which
  is not part of the repository and is taken as a parameter. \<open>authenticate_call\<close> is
  the API call chosen by the \<^verbatim>\<open>if (this.state.ldapAuth)\<close>; \<open>authenticate\<close> issues
  it and then clears the state with \<^verbatim>\<open>setState({ password: "", error: false })\<close>.
\<close>

definition authenticate_call :: "(string \<Rightarrow> string) \<Rightarrow> LoginState \<Rightarrow> request" where
  "authenticate_call sha256 s =
     (if ldapAuth s then
        (let username' = username s; password' = password s
         in AuthenticateLdap username' password')
      else
        (let hashedPassword = sha256 (password s);
             hashedPassword = sha256 hashedPassword
         in Authenticate hashedPassword))"

definition authenticate :: "(string \<Rightarrow> string) \<Rightarrow> LoginState \<times> Env \<Rightarrow> LoginState \<times> Env" where
  "authenticate sha256 c =
     (case c of (s, w) \<Rightarrow>
        (s\<lparr>password := '''', error := False\<rparr>,
         w\<lparr>requests := requests w @ [authenticate_call sha256 s]\<rparr>))"

text \<open>
  The \<^verbatim>\<open>then\<close> callback of the promise: \<open>fakeAPI\<close> is \<^verbatim>\<open>config.fakeAPI\<close>.
  It touches the environment only.
\<close>

definition authenticate_then :: "bool \<Rightarrow> LoginProps \<Rightarrow> Env \<Rightarrow> Env" where
  "authenticate_then fakeAPI props w =
     (let w1 = w\<lparr>loggedIn := True\<rparr>;
          w2 = (if fakeAPI then w1\<lparr>cookie := cookie w1 @ [''user_id=;'']\<rparr> else w1);
          locationState =
            (case location_state props of
               Some st \<Rightarrow> st
             | None \<Rightarrow> \<lparr>from_location = \<lparr>pathname = ''/''\<rparr>\<rparr>)
      in w2\<lparr>pushed := pushed w2 @ [pathname (from_location locationState)]\<rparr>)"

text \<open>The \<^verbatim>\<open>catch\<close> callback: \<^verbatim>\<open>this.setState({ error: true })\<close>.\<close>

definition authenticate_catch :: "LoginState \<Rightarrow> LoginState" where
  "authenticate_catch s = s\<lparr>error := True\<rparr>"

subsection \<open>Rendering\<close>

text \<open>
  What \<^verbatim>\<open>render\<close> returns, reduced to the parts that depend on state, props or
  environment: either \<^verbatim>\<open><Redirect to=... />\<close> or the login form. \<open>routes\<close> is the
  table \<^verbatim>\<open>routes(t)\<close>, which lives outside this file and is a parameter.
\<close>

record LoginForm =
  transfer_page :: "string option"
  cookie_warning :: bool
  wrong_password :: bool
  username_input :: "string option"
  password_input :: string

datatype view = Redirect string | Form LoginForm

definition render :: "(string \<rightharpoonup> string) \<Rightarrow> LoginProps \<Rightarrow> LoginState \<times> Env \<Rightarrow> view" where
  "render routes props c =
     (case c of (s, w) \<Rightarrow>
        if loggedIn w then Redirect ''/''
        else Form
          \<lparr>transfer_page =
             (case location_state props of
                None \<Rightarrow> None
              | Some st \<Rightarrow> routes (pathname (from_location st))),
           cookie_warning = (\<not> cookiesEnabled s),
           wrong_password = error s,
           username_input = (if ldapAuth s then Some (username s) else None),
           password_input = password s\<rparr>)"

text \<open>
  Mounting: React calls \<^verbatim>\<open>componentWillMount\<close> and then \<^verbatim>\<open>render\<close>. The result
  is the first view together with the state and environment after it.
\<close>

definition mount ::
  "bool \<Rightarrow> (string \<rightharpoonup> string) \<Rightarrow> LoginProps \<Rightarrow> LoginState \<times> Env \<Rightarrow> view \<times> LoginState \<times> Env" where
  "mount cookieEnabled routes props c =
     (let c' = componentWillMount cookieEnabled c in (render routes props c', c'))"

subsection \<open>Runs of the component\<close>

text \<open>
  The events that reach a mounted component, each bound to the handler or promise callback
  of the source that React or the promise runs for it: input changes, the form's
  \<^verbatim>\<open>onSubmit\<close>, the resolution of the mode probe, and the resolution or rejection of
  the authentication promise. \<open>run\<close> applies a list of events in order.
\<close>

datatype event =
    PasswordChange string
  | UsernameChange string
  | Submit
  | AuthModeResolved string
  | AuthResolved
  | AuthRejected

fun step ::
  "(string \<Rightarrow> string) \<Rightarrow> bool \<Rightarrow> LoginProps \<Rightarrow> event \<Rightarrow> LoginState \<times> Env \<Rightarrow> LoginState \<times> Env" where
  "step sha256 fakeAPI props (PasswordChange v) (s, w) = (handlePasswordChange v s, w)"
| "step sha256 fakeAPI props (UsernameChange v) (s, w) = (handleUsernameChange v s, w)"
| "step sha256 fakeAPI props Submit (s, w) = authenticate sha256 (s, w)"
| "step sha256 fakeAPI props (AuthModeResolved mode) (s, w) = (checkAuthMode_then mode s, w)"
| "step sha256 fakeAPI props AuthResolved (s, w) = (s, authenticate_then fakeAPI props w)"
| "step sha256 fakeAPI props AuthRejected (s, w) = (authenticate_catch s, w)"

fun run ::
  "(string \<Rightarrow> string) \<Rightarrow> bool \<Rightarrow> LoginProps \<Rightarrow> event list \<Rightarrow> LoginState \<times> Env \<Rightarrow> LoginState \<times> Env" where
  "run sha256 fakeAPI props [] c = c"
| "run sha256 fakeAPI props (e # es) c = run sha256 fakeAPI props es (step sha256 fakeAPI props e c)"


section \<open>React context objects (src/src/components/common/context.tsx)\<close>

subsection \<open>Context values\<close>

text \<open>
  \<^verbatim>\<open>ApiStatus\<close> and \<^verbatim>\<open>ApiPreferences\<close> are declared outside the two source
  files; the fields below are the ones the source reads (\<^verbatim>\<open>data.status\<close>) or writes
  (\<^verbatim>\<open>{ layout: "boxed", language: "en" }\<close>).

  A callback \<^verbatim>\<open>(data?: T) => void\<close> is a function of its optional argument that
  transforms the world \<open>'w\<close> it acts on; the empty arrow function \<^verbatim>\<open>() => {}\<close>
  leaves every world as it is.
\<close>

type_synonym Status = string

record ApiStatus =
  status :: Status

record ApiPreferences =
  layout :: string
  language :: string

type_synonym ('d, 'w) refresh_fn = "'d option \<Rightarrow> 'w \<Rightarrow> 'w"

record 'w StatusContextType =
  status :: Status
  refresh :: "(ApiStatus, 'w) refresh_fn"

record 'w PreferencesContextType =
  settings :: ApiPreferences
  refresh :: "(ApiPreferences, 'w) refresh_fn"

definition initialStatus :: "'w StatusContextType" where
  "initialStatus =
     \<lparr>StatusContextType.status = ''unknown'', StatusContextType.refresh = (\<lambda>_ w. w)\<rparr>"

definition initialPreferences :: "'w PreferencesContextType" where
  "initialPreferences =
     \<lparr>settings = \<lparr>layout = ''boxed'', language = ''en''\<rparr>,
      PreferencesContextType.refresh = (\<lambda>_ w. w)\<rparr>"

subsection \<open>The component the providers are built on\<close>

text \<open>
  Modelled from the spec: \<^verbatim>\<open>WithAPIData\<close> (the spec's AsyncResource) is imported by
  context.tsx and is not among the source files. The spec gives its state as a tagged union
  \<open>Initial\<close>, \<open>Ok{value, refresh}\<close>, \<open>Err{error, refresh}\<close>, of which exactly one
  variant is current, delivered to the caller's presentation callback on every transition.
  \<open>WithAPIDataProps\<close> are the props the source passes to it; \<open>WithAPIData_render\<close>
  hands the current state to the callback of the same name.
\<close>

datatype ('t, 'e, 'r) AsyncResourceState =
    Initial
  | Ok 't 'r
  | Err 'e 'r

record RepeatOptions =
  interval :: nat
  ignoreCancel :: bool

record ('t, 'e, 'r, 'v) WithAPIDataProps =
  apiCall :: request
  repeatOptions :: "RepeatOptions option"
  renderInitial :: "unit \<Rightarrow> 'v"
  renderOk :: "'t \<Rightarrow> 'r \<Rightarrow> 'v"
  renderErr :: "'e \<Rightarrow> 'r \<Rightarrow> 'v"

fun WithAPIData_render ::
  "('t, 'e, 'r, 'v) WithAPIDataProps \<Rightarrow> ('t, 'e, 'r) AsyncResourceState \<Rightarrow> 'v" where
  "WithAPIData_render props Initial = renderInitial props ()"
| "WithAPIData_render props (Ok data refresh') = renderOk props data refresh'"
| "WithAPIData_render props (Err e refresh') = renderErr props e refresh'"

subsection \<open>The providers\<close>

text \<open>
  \<^verbatim>\<open>StatusProvider\<close> and \<^verbatim>\<open>PreferencesProvider\<close> are the props each passes to
  \<^verbatim>\<open>WithAPIData\<close>. A render callback returns a \<^verbatim>\<open>Provider\<close> element around the
  unchanged children; what it contributes is the \<^verbatim>\<open>value\<close> it publishes, which is
  what the model returns. (The spread \<^verbatim>\<open>{...props}\<close> is empty: the component's props
  are \<^verbatim>\<open>children\<close> alone.) \<^verbatim>\<open>PreferencesProvider\<close> passes no
  \<^verbatim>\<open>repeatOptions\<close>.
\<close>

definition StatusProvider ::
  "(ApiStatus, 'e, (ApiStatus, 'w) refresh_fn, 'w StatusContextType) WithAPIDataProps" where
  "StatusProvider =
     \<lparr>apiCall = GetStatus,
      repeatOptions = Some \<lparr>interval = 5000, ignoreCancel = True\<rparr>,
      renderInitial = (\<lambda>_. initialStatus),
      renderOk = (\<lambda>data refresh.
        \<lparr>StatusContextType.status = ApiStatus.status data,
         StatusContextType.refresh = refresh\<rparr>),
      renderErr = (\<lambda>_ refresh.
        \<lparr>StatusContextType.status = ''unknown'', StatusContextType.refresh = refresh\<rparr>)\<rparr>"

definition PreferencesProvider ::
  "(ApiPreferences, 'e, (ApiPreferences, 'w) refresh_fn, 'w PreferencesContextType) WithAPIDataProps" where
  "PreferencesProvider =
     \<lparr>apiCall = GetPreferences,
      repeatOptions = None,
      renderInitial = (\<lambda>_. initialPreferences),
      renderOk = (\<lambda>settings refresh.
        \<lparr>settings = settings, PreferencesContextType.refresh = refresh\<rparr>),
      renderErr = (\<lambda>_ refresh.
        \<lparr>settings = \<lparr>layout = ''boxed'', language = ''en''\<rparr>,
         PreferencesContextType.refresh = refresh\<rparr>)\<rparr>"

section \<open>The asynchronous resource behind the providers\<close>

text \<open>
  Modelled from the spec: the engine of \<^verbatim>\<open>WithAPIData\<close> (the spec's AsyncResource,
  its section 4.1) is not among the source files. What follows is that section, sentence by
  sentence.

  An instance holds exactly one \<open>AsyncResourceState\<close>, a generation counter, whether a
  poll timer is pending, its optional \<open>PollConfig\<close>, whether it has been torn down, and
  the one \<open>refresh\<close> callback it hands out with every \<open>Ok\<close> and \<open>Err\<close> (stable
  across re-renders). \<open>issued\<close> lists the generation tokens of the fetches issued so
  far, oldest first: every fetch carries the generation that is current when it is issued.
\<close>

record PollConfig =
  intervalMs :: nat
  ignoreCancelErrors :: bool

datatype 'e fetch_error = Superseded | Failure 'e

record ('t, 'e, 'r) AsyncResource =
  state :: "('t, 'e fetch_error, 'r) AsyncResourceState"
  generation :: nat
  timer :: bool
  pollConfig :: "PollConfig option"
  torn_down :: bool
  refresh_handle :: 'r
  issued :: "nat list"

text \<open>
  Modelled from the spec: on creation the state is \<open>Initial\<close> and a fetch is issued
  immediately.
\<close>

definition create :: "'r \<Rightarrow> PollConfig option \<Rightarrow> ('t, 'e, 'r) AsyncResource" where
  "create h cfg =
     \<lparr>state = Initial, generation = 0, timer = False, pollConfig = cfg, torn_down = False,
      refresh_handle = h, issued = [0]\<rparr>"

definition issue :: "('t, 'e, 'r) AsyncResource \<Rightarrow> ('t, 'e, 'r) AsyncResource" where
  "issue r = r\<lparr>issued := issued r @ [generation r]\<rparr>"

text \<open>
  Modelled from the spec: when a fetch settles and an interval is configured, the next
  fetch is scheduled; without a \<open>PollConfig\<close> the fetch is one-shot.
\<close>

definition settle :: "('t, 'e, 'r) AsyncResource \<Rightarrow> ('t, 'e, 'r) AsyncResource" where
  "settle r = r\<lparr>timer := (pollConfig r \<noteq> None)\<rparr>"

text \<open>
  Modelled from the spec: only the result whose token matches the current generation is
  applied, and no state transition occurs after teardown. A resolution moves the state
  to \<open>Ok\<close>; a rejection moves it to \<open>Err\<close>, unless \<open>ignoreCancelErrors\<close> is set
  and the error denotes a superseded fetch, in which case the previous state is retained.
\<close>

definition applies :: "nat \<Rightarrow> ('t, 'e, 'r) AsyncResource \<Rightarrow> bool" where
  "applies tok r = (tok = generation r \<and> \<not> torn_down r)"

definition ignores_cancel :: "('t, 'e, 'r) AsyncResource \<Rightarrow> bool" where
  "ignores_cancel r = (case pollConfig r of None \<Rightarrow> False | Some cfg \<Rightarrow> ignoreCancelErrors cfg)"

definition resolved :: "nat \<Rightarrow> 't \<Rightarrow> ('t, 'e, 'r) AsyncResource \<Rightarrow> ('t, 'e, 'r) AsyncResource" where
  "resolved tok v r =
     (if applies tok r then settle (r\<lparr>state := Ok v (refresh_handle r)\<rparr>) else r)"

definition rejected ::
  "nat \<Rightarrow> 'e fetch_error \<Rightarrow> ('t, 'e, 'r) AsyncResource \<Rightarrow> ('t, 'e, 'r) AsyncResource" where
  "rejected tok e r =
     (if applies tok r then
        (if ignores_cancel r \<and> e = Superseded then settle r
         else settle (r\<lparr>state := Err e (refresh_handle r)\<rparr>))
      else r)"

text \<open>
  Modelled from the spec: \<open>refresh()\<close> cancels any pending timer, discards the result
  of any in-flight fetch (the generation moves on) and issues a new fetch immediately. Reconfiguring the instance
  with another fetch identity supersedes the fetch in flight in the same way. A due timer
  issues the next fetch; the one before it has settled, so nothing is superseded. Teardown
  increments the generation one final time and clears the timer; a torn-down instance
  does nothing any more.
\<close>

definition refresh_resource :: "('t, 'e, 'r) AsyncResource \<Rightarrow> ('t, 'e, 'r) AsyncResource" where
  "refresh_resource r =
     (if torn_down r then r
      else issue (r\<lparr>timer := False, generation := Suc (generation r)\<rparr>))"

definition reconfigure :: "('t, 'e, 'r) AsyncResource \<Rightarrow> ('t, 'e, 'r) AsyncResource" where
  "reconfigure r =
     (if torn_down r then r
      else issue (r\<lparr>timer := False, generation := Suc (generation r)\<rparr>))"

definition timer_fires :: "('t, 'e, 'r) AsyncResource \<Rightarrow> ('t, 'e, 'r) AsyncResource" where
  "timer_fires r = (if timer r \<and> \<not> torn_down r then issue (r\<lparr>timer := False\<rparr>) else r)"

definition teardown :: "('t, 'e, 'r) AsyncResource \<Rightarrow> ('t, 'e, 'r) AsyncResource" where
  "teardown r =
     (if torn_down r then r
      else r\<lparr>generation := Suc (generation r), timer := False, torn_down := True\<rparr>)"

text \<open>
  Modelled from the spec: what can happen to an instance, in any order: a fetch carrying
  token \<open>tok\<close> resolves or rejects, the timer comes due, \<open>refresh()\<close> is called,
  the instance is reconfigured or torn down.
\<close>

datatype ('t, 'e) resource_event =
    Resolved nat 't
  | Rejected nat "'e fetch_error"
  | TimerFires
  | Refresh
  | Reconfigure
  | Teardown

fun resource_step ::
  "('t, 'e) resource_event \<Rightarrow> ('t, 'e, 'r) AsyncResource \<Rightarrow> ('t, 'e, 'r) AsyncResource" where
  "resource_step (Resolved tok v) r = resolved tok v r"
| "resource_step (Rejected tok e) r = rejected tok e r"
| "resource_step TimerFires r = timer_fires r"
| "resource_step Refresh r = refresh_resource r"
| "resource_step Reconfigure r = reconfigure r"
| "resource_step Teardown r = teardown r"

fun resource_run ::
  "('t, 'e) resource_event list \<Rightarrow> ('t, 'e, 'r) AsyncResource \<Rightarrow> ('t, 'e, 'r) AsyncResource" where
  "resource_run [] r = r"
| "resource_run (e # es) r = resource_run es (resource_step e r)"

text \<open>
  Modelled from the spec: the state as the presentation callback receives it. The
  \<open>refresh\<close> that comes with \<open>Ok\<close> and \<open>Err\<close> is the instance's own
  \<open>refresh()\<close>, a callback on the instance that ignores its optional argument; with
  \<open>Initial\<close> comes nothing.
\<close>

definition delivered ::
  "('t, 'e, 'r) AsyncResource \<Rightarrow>
     ('t, 'e fetch_error, ('t, ('t, 'e, 'r) AsyncResource) refresh_fn) AsyncResourceState" where
  "delivered r =
     (case state r of
        Initial \<Rightarrow> Initial
      | Ok v h \<Rightarrow> Ok v (\<lambda>_. refresh_resource)
      | Err e h \<Rightarrow> Err e (\<lambda>_. refresh_resource))"

section \<open>Properties of the login page\<close>

subsection \<open>Auxiliary facts\<close>

lemma authenticate_state:
  "fst (authenticate sha256 (s, w)) = s\<lparr>password := '''', error := False\<rparr>"
  by (simp add: authenticate_def)

lemma authenticate_env:
  "snd (authenticate sha256 (s, w)) = w\<lparr>requests := requests w @ [authenticate_call sha256 s]\<rparr>"
  by (simp add: authenticate_def)

lemma step_cookiesEnabled_update:
  "step sha256 fakeAPI props e (s\<lparr>cookiesEnabled := b\<rparr>, w) =
     ((fst (step sha256 fakeAPI props e (s, w)))\<lparr>cookiesEnabled := b\<rparr>,
      snd (step sha256 fakeAPI props e (s, w)))"
  by (cases e)
     (simp_all add: handlePasswordChange_def handleUsernameChange_def authenticate_def
        authenticate_call_def checkAuthMode_then_def authenticate_catch_def)

lemma run_cookiesEnabled_update:
  "run sha256 fakeAPI props es (s\<lparr>cookiesEnabled := b\<rparr>, w) =
     ((fst (run sha256 fakeAPI props es (s, w)))\<lparr>cookiesEnabled := b\<rparr>,
      snd (run sha256 fakeAPI props es (s, w)))"
proof (induction es arbitrary: s w)
  case Nil
  show ?case by simp
next
  case (Cons e es)
  obtain s' w' where st: "step sha256 fakeAPI props e (s, w) = (s', w')"
    by (cases "step sha256 fakeAPI props e (s, w)")
  show ?case
    by (simp add: step_cookiesEnabled_update st Cons.IH)
qed

lemma step_cookiesEnabled:
  "cookiesEnabled (fst (step sha256 fakeAPI props e (s, w))) = cookiesEnabled s"
  by (cases e)
     (simp_all add: handlePasswordChange_def handleUsernameChange_def authenticate_def
        checkAuthMode_then_def authenticate_catch_def)

lemma run_cookiesEnabled:
  "cookiesEnabled (fst (run sha256 fakeAPI props es c)) = cookiesEnabled (fst c)"
proof (induction es arbitrary: c)
  case Nil
  show ?case by simp
next
  case (Cons e es)
  obtain s w where c: "c = (s, w)" by (cases c)
  show ?case
    by (simp add: c Cons.IH step_cookiesEnabled)
qed











subsection \<open>Submission\<close>

text \<open>
  C1. What a submission passes to the API. In Local mode (\<open>ldapAuth\<close> false) exactly
  one call is issued, \<^verbatim>\<open>api.authenticate\<close>, and its argument is the hex SHA-256 of the
  hex SHA-256 of the password draft; the draft itself is passed to no call. In LDAP mode
  exactly one call is issued, \<^verbatim>\<open>api.authenticateLdap\<close>, with the username and
  password drafts as they stand. Nothing else of the environment changes.
\<close>

theorem authenticate_transmits:
  "requests (snd (authenticate sha256 (s, w))) =
     requests w @
       [if ldapAuth s then AuthenticateLdap (username s) (password s)
        else Authenticate (sha256 (sha256 (password s)))]
   \<and> loggedIn (snd (authenticate sha256 (s, w))) = loggedIn w
   \<and> cookie (snd (authenticate sha256 (s, w))) = cookie w
   \<and> pushed (snd (authenticate sha256 (s, w))) = pushed w"
  by (simp add: authenticate_def authenticate_call_def)

text \<open>
  C7. Every submission, in either mode and whatever its later outcome, leaves the
  password draft empty and the error flag false. This is the state at the end of the
  submit handler itself: neither promise callback has run yet.
\<close>

theorem authenticate_clears_password_and_error:
  "password (fst (authenticate sha256 (s, w))) = ''''
   \<and> error (fst (authenticate sha256 (s, w))) = False"
  by (simp add: authenticate_def)

text \<open>
  C10. A submission changes the password draft and the error flag and nothing else of
  the component state; the username draft in particular is kept, also after the attempt
  has been rejected.
\<close>

theorem authenticate_keeps_username:
  "username (fst (authenticate sha256 (s, w))) = username s
   \<and> fst (authenticate sha256 (s, w)) = s\<lparr>password := '''', error := False\<rparr>
   \<and> username (authenticate_catch (fst (authenticate sha256 (s, w)))) = username s
   \<and> username (fst (run sha256 fakeAPI props [Submit, AuthRejected] (s, w))) = username s"
  by (simp add: authenticate_def authenticate_catch_def)

subsection \<open>Outcome of a submission\<close>

text \<open>
  C5. When the authentication promise resolves, \<^verbatim>\<open>api.loggedIn\<close> becomes true and
  \<^verbatim>\<open>history.push\<close> is called exactly once: with \<^verbatim>\<open>location.state.from.pathname\<close>
  when \<^verbatim>\<open>location.state\<close> is present, with \<^verbatim>\<open>"/"\<close> otherwise. No API call
  is issued by the callback. So a submission whose promise resolves ends with the session
  flag true and that one redirect added.
\<close>

theorem authenticate_then_logs_in_and_redirects:
  "loggedIn (authenticate_then fakeAPI props w) = True
   \<and> pushed (authenticate_then fakeAPI props w) =
       pushed w @
         [case location_state props of
            Some st \<Rightarrow> pathname (from_location st)
          | None \<Rightarrow> ''/'']
   \<and> requests (authenticate_then fakeAPI props w) = requests w
   \<and> loggedIn (snd (run sha256 fakeAPI props [Submit, AuthResolved] (s, w))) = True
   \<and> pushed (snd (run sha256 fakeAPI props [Submit, AuthResolved] (s, w))) =
       pushed w @
         [case location_state props of
            Some st \<Rightarrow> pathname (from_location st)
          | None \<Rightarrow> ''/'']"
  by (simp add: authenticate_then_def authenticate_def Let_def split: option.split)



subsection \<open>Mounting\<close>

text \<open>
  C2, as the code has it. \<^verbatim>\<open>componentWillMount\<close> does not read
  \<^verbatim>\<open>api.loggedIn\<close>: mounting while it is true renders the redirect to \<^verbatim>\<open>"/"\<close>
  and issues exactly one API call, the auth-mode probe. No authentication call is issued.
\<close>

theorem mount_logged_in_redirects_and_probes:
  "fst (mount cookieEnabled routes props (s, w\<lparr>loggedIn := True\<rparr>)) = Redirect ''/''
   \<and> requests (snd (snd (mount cookieEnabled routes props (s, w\<lparr>loggedIn := True\<rparr>)))) =
       requests w @ [CheckAuthMode]"
  by (simp add: mount_def componentWillMount_def render_def)

text \<open>
  C2, as the claim states it, fails: mounting the initial state with
  \<^verbatim>\<open>api.loggedIn\<close> true and no call issued so far leaves one call issued, the probe.
\<close>

theorem mount_logged_in_issues_probe:
  "requests (snd (snd (mount True Map.empty \<lparr>location_state = None\<rparr>
      (initialState, \<lparr>loggedIn = True, requests = [], cookie = [], pushed = []\<rparr>)))) =
     [CheckAuthMode]"
  by (simp add: mount_def componentWillMount_def render_def initialState_def)

subsection \<open>The cookie signal\<close>

text \<open>
  C9. \<^verbatim>\<open>navigator.cookieEnabled\<close> is an argument of \<open>componentWillMount\<close> only,
  which samples it: mounting sets the field \<open>cookiesEnabled\<close> when the signal is true
  and leaves it otherwise, so that a component mounted from its initial state holds exactly
  the sampled value, then and after any events. Take
  two mounts of the same state and environment that differ in the sampled value, and run
  the same events after each: the environments (API calls issued, session flag, cookie
  writes, redirects) are equal, the component states are equal up to the field
  \<open>cookiesEnabled\<close>, and that field still holds what the mount left there.
\<close>

theorem cookiesEnabled_does_not_interfere:
  "snd (run sha256 fakeAPI props es (componentWillMount c1 (s, w))) =
     snd (run sha256 fakeAPI props es (componentWillMount c2 (s, w)))
   \<and> (fst (run sha256 fakeAPI props es (componentWillMount c1 (s, w))))\<lparr>cookiesEnabled := b\<rparr> =
     (fst (run sha256 fakeAPI props es (componentWillMount c2 (s, w))))\<lparr>cookiesEnabled := b\<rparr>
   \<and> cookiesEnabled (fst (run sha256 fakeAPI props es (componentWillMount c1 (s, w)))) =
     cookiesEnabled (fst (componentWillMount c1 (s, w)))
   \<and> cookiesEnabled (fst (componentWillMount c1 (s, w))) = (c1 \<or> cookiesEnabled s)
   \<and> cookiesEnabled (fst (componentWillMount c1 (initialState, w))) = c1
   \<and> cookiesEnabled
        (fst (run sha256 fakeAPI props es (componentWillMount c1 (initialState, w)))) = c1"
proof -
  let ?w = "w\<lparr>requests := requests w @ [CheckAuthMode]\<rparr>"
  have m: "componentWillMount c (s, w) =
             (s\<lparr>cookiesEnabled := (c \<or> cookiesEnabled s)\<rparr>, ?w)" for c
    by (simp add: componentWillMount_def)
  have r: "run sha256 fakeAPI props es (componentWillMount c (s, w)) =
             ((fst (run sha256 fakeAPI props es (s, ?w)))\<lparr>cookiesEnabled := (c \<or> cookiesEnabled s)\<rparr>,
              snd (run sha256 fakeAPI props es (s, ?w)))" for c
    by (simp only: m run_cookiesEnabled_update)
  have k: "cookiesEnabled (fst (componentWillMount c1 (s, w))) = (c1 \<or> cookiesEnabled s)"
    by (simp add: m)
  have sampled: "cookiesEnabled (fst (componentWillMount c1 (initialState, w))) = c1"
    by (simp add: componentWillMount_def initialState_def)
  have kept: "cookiesEnabled
        (fst (run sha256 fakeAPI props es (componentWillMount c1 (initialState, w)))) = c1"
    using sampled by (simp only: run_cookiesEnabled)
  show ?thesis
    using sampled kept by (simp add: r k)
qed

section \<open>Properties of the asynchronous resource\<close>

subsection \<open>The generation only grows\<close>

lemma resource_step_generation_mono:
  "generation r \<le> generation (resource_step ev r)"
  by (cases ev)
     (simp_all add: resolved_def rejected_def timer_fires_def refresh_resource_def
        reconfigure_def teardown_def settle_def issue_def)

lemma resource_run_generation_mono:
  "generation r \<le> generation (resource_run evs r)"
proof (induction evs arbitrary: r)
  case Nil
  show ?case by simp
next
  case (Cons ev evs)
  have "generation r \<le> generation (resource_step ev r)"
    by (rule resource_step_generation_mono)
  also have "\<dots> \<le> generation (resource_run evs (resource_step ev r))"
    by (rule Cons.IH)
  finally show ?case by simp
qed

lemma resource_run_append:
  "resource_run (es @ fs) r = resource_run fs (resource_run es r)"
  by (induction es arbitrary: r) simp_all

lemma stale_token_ignored:
  "tok < generation r \<Longrightarrow> resolved tok v r = r \<and> rejected tok e r = r"
  by (simp add: resolved_def rejected_def applies_def)

text \<open>
  The result of the current fetch, on the other hand, is applied: the rule below does not
  hold because nothing is ever applied.
\<close>

lemma current_result_applied:
  "state (resolved (generation r) v (r\<lparr>torn_down := False\<rparr>)) = Ok v (refresh_handle r)"
  by (simp add: resolved_def applies_def settle_def)

subsection \<open>Stale results\<close>

text \<open>
  C8. Let \<open>tok\<close> be older than the generation of an instance. Then a resolution or a
  rejection carrying \<open>tok\<close> leaves the instance exactly as it is; \<open>tok\<close> is still
  older than the generation after any further events; and so, whenever the result
  carrying \<open>tok\<close> arrives after them, the instance is the one those events left: a
  superseded fetch never overwrites a newer state.
\<close>

theorem stale_result_never_applied:
  assumes "tok < generation r"
  shows "resource_step (Resolved tok v) r = r
       \<and> resource_step (Rejected tok e) r = r
       \<and> tok < generation (resource_run evs r)
       \<and> resource_run (evs @ [Resolved tok v]) r = resource_run evs r
       \<and> resource_run (evs @ [Rejected tok e]) r = resource_run evs r"
proof -
  have later: "tok < generation (resource_run evs r)"
    using assms resource_run_generation_mono [of r evs] by simp
  show ?thesis
    using assms later stale_token_ignored [of tok r v e]
      stale_token_ignored [of tok "resource_run evs r" v e]
    by (simp add: resource_run_append)
qed

text \<open>
  An instance polling every 5000 ms is refreshed right after its creation, so the first
  fetch (token 0) is superseded by the second (token 1). The second resolves with
  \<open>''new''\<close> and the timer comes due; when the first then resolves with \<open>''old''\<close>,
  the state is still \<open>Ok ''new''\<close>.
\<close>

theorem stale_result_never_applied_witness:
  "0 < generation
         (refresh_resource
            (create () (Some \<lparr>intervalMs = 5000, ignoreCancelErrors = True\<rparr>)
               :: (string, unit, unit) AsyncResource))
   \<and> state
        (resource_run ([Resolved 1 ''new'', TimerFires] @ [Resolved 0 ''old''])
           (refresh_resource
              (create () (Some \<lparr>intervalMs = 5000, ignoreCancelErrors = True\<rparr>)
                 :: (string, unit, unit) AsyncResource))) =
      Ok ''new'' ()"
proof -
  let ?r = "refresh_resource
              (create () (Some \<lparr>intervalMs = 5000, ignoreCancelErrors = True\<rparr>)
                 :: (string, unit, unit) AsyncResource)"
  have h: "0 < generation ?r"
    by (simp add: refresh_resource_def create_def issue_def)
  have "state (resource_run [Resolved 1 ''new'', TimerFires] ?r) = Ok ''new'' ()"
    by (simp add: refresh_resource_def create_def issue_def resolved_def applies_def
          settle_def timer_fires_def)
  then show ?thesis
    using h
      stale_result_never_applied [OF h, of "''old''" Superseded "[Resolved 1 ''new'', TimerFires]"]
    by simp
qed

section \<open>Properties of the context providers\<close>

subsection \<open>The render callbacks\<close>

lemma StatusProvider_renderInitial:
  "renderInitial StatusProvider () = initialStatus"
  by (simp add: StatusProvider_def)

lemma StatusProvider_renderOk:
  "renderOk StatusProvider data r =
     \<lparr>StatusContextType.status = ApiStatus.status data, StatusContextType.refresh = r\<rparr>"
  by (simp add: StatusProvider_def)

lemma StatusProvider_renderErr:
  "renderErr StatusProvider e r =
     \<lparr>StatusContextType.status = ''unknown'', StatusContextType.refresh = r\<rparr>"
  by (simp add: StatusProvider_def)

lemma PreferencesProvider_renderInitial:
  "renderInitial PreferencesProvider () = initialPreferences"
  by (simp add: PreferencesProvider_def)

lemma PreferencesProvider_renderOk:
  "renderOk PreferencesProvider s r = \<lparr>settings = s, PreferencesContextType.refresh = r\<rparr>"
  by (simp add: PreferencesProvider_def)

lemma PreferencesProvider_renderErr:
  "renderErr PreferencesProvider e r =
     \<lparr>settings = \<lparr>layout = ''boxed'', language = ''en''\<rparr>, PreferencesContextType.refresh = r\<rparr>"
  by (simp add: PreferencesProvider_def)

lemmas provider_callbacks =
  StatusProvider_renderInitial StatusProvider_renderOk StatusProvider_renderErr
  PreferencesProvider_renderInitial PreferencesProvider_renderOk PreferencesProvider_renderErr

subsection \<open>Published values\<close>

text \<open>
  C3. Whatever the state of the underlying resource, \<^verbatim>\<open>StatusProvider\<close> publishes the
  status \<^verbatim>\<open>data.status\<close> of the resolved value in the \<open>Ok\<close> state and
  \<^verbatim>\<open>"unknown"\<close> in the \<open>Initial\<close> and \<open>Err\<close> states, and
  \<^verbatim>\<open>PreferencesProvider\<close> publishes the fetched settings in the \<open>Ok\<close> state and
  \<^verbatim>\<open>{ layout: "boxed", language: "en" }\<close> in the \<open>Initial\<close> and \<open>Err\<close> states.
  The first six equations are about the three render callbacks of each provider as the
  source writes them; the last two say the same of the value published for a state.
\<close>

theorem providers_publish_value_or_default:
  "StatusContextType.status (renderInitial StatusProvider ()) = ''unknown''
   \<and> StatusContextType.status (renderOk StatusProvider data r) = ApiStatus.status data
   \<and> StatusContextType.status (renderErr StatusProvider e r) = ''unknown''
   \<and> settings (renderInitial PreferencesProvider ()) = \<lparr>layout = ''boxed'', language = ''en''\<rparr>
   \<and> settings (renderOk PreferencesProvider fetched r') = fetched
   \<and> settings (renderErr PreferencesProvider e' r') = \<lparr>layout = ''boxed'', language = ''en''\<rparr>
   \<and> StatusContextType.status (WithAPIData_render StatusProvider st) =
     (case st of
        Initial \<Rightarrow> ''unknown''
      | Ok data r \<Rightarrow> ApiStatus.status data
      | Err e r \<Rightarrow> ''unknown'')
   \<and> settings (WithAPIData_render PreferencesProvider pt) =
     (case pt of
        Initial \<Rightarrow> \<lparr>layout = ''boxed'', language = ''en''\<rparr>
      | Ok fetched r \<Rightarrow> fetched
      | Err e r \<Rightarrow> \<lparr>layout = ''boxed'', language = ''en''\<rparr>)"
proof -
  have "StatusContextType.status (WithAPIData_render StatusProvider st) =
     (case st of
        Initial \<Rightarrow> ''unknown''
      | Ok data r \<Rightarrow> ApiStatus.status data
      | Err e r \<Rightarrow> ''unknown'')"
    by (cases st) (simp_all add: provider_callbacks initialStatus_def)
  moreover have "settings (WithAPIData_render PreferencesProvider pt) =
     (case pt of
        Initial \<Rightarrow> \<lparr>layout = ''boxed'', language = ''en''\<rparr>
      | Ok fetched r \<Rightarrow> fetched
      | Err e r \<Rightarrow> \<lparr>layout = ''boxed'', language = ''en''\<rparr>)"
    by (cases pt) (simp_all add: provider_callbacks initialPreferences_def)
  ultimately show ?thesis
    by (simp add: provider_callbacks initialStatus_def initialPreferences_def)
qed

subsection \<open>The published refresh callback\<close>

lemma providers_pass_refresh_on:
  "StatusContextType.refresh (WithAPIData_render StatusProvider st) =
     (case st of
        Initial \<Rightarrow> (\<lambda>_ w. w)
      | Ok data c \<Rightarrow> c
      | Err e c \<Rightarrow> c)
   \<and> PreferencesContextType.refresh (WithAPIData_render PreferencesProvider pt) =
     (case pt of
        Initial \<Rightarrow> (\<lambda>_ w. w)
      | Ok fetched c \<Rightarrow> c
      | Err e c \<Rightarrow> c)
   \<and> WithAPIData_render StatusProvider Initial = initialStatus
   \<and> WithAPIData_render PreferencesProvider Initial = initialPreferences"
proof -
  have s: "StatusContextType.refresh (WithAPIData_render StatusProvider st) =
     (case st of Initial \<Rightarrow> (\<lambda>_ w. w) | Ok data c \<Rightarrow> c | Err e c \<Rightarrow> c)"
    by (cases st) (simp_all add: provider_callbacks initialStatus_def)
  have p: "PreferencesContextType.refresh (WithAPIData_render PreferencesProvider pt) =
     (case pt of Initial \<Rightarrow> (\<lambda>_ w. w) | Ok fetched c \<Rightarrow> c | Err e c \<Rightarrow> c)"
    by (cases pt) (simp_all add: provider_callbacks initialPreferences_def)
  show ?thesis
    using s p by (simp add: provider_callbacks)
qed

text \<open>
  Once an instance has left \<open>Initial\<close> it never returns there, and its refresh handle
  is the same after any events.
\<close>

lemma resource_step_not_Initial:
  "state r \<noteq> Initial \<Longrightarrow> state (resource_step ev r) \<noteq> Initial"
  by (cases ev)
     (simp_all add: resolved_def rejected_def timer_fires_def refresh_resource_def
        reconfigure_def teardown_def settle_def issue_def)

lemma resource_run_not_Initial:
  "state r \<noteq> Initial \<Longrightarrow> state (resource_run evs r) \<noteq> Initial"
proof (induction evs arbitrary: r)
  case Nil
  then show ?case by simp
next
  case (Cons ev evs)
  have "state (resource_step ev r) \<noteq> Initial"
    using Cons.prems by (rule resource_step_not_Initial)
  then show ?case
    using Cons.IH by simp
qed

lemma resource_step_refresh_handle:
  "refresh_handle (resource_step ev r) = refresh_handle r"
  by (cases ev)
     (simp_all add: resolved_def rejected_def timer_fires_def refresh_resource_def
        reconfigure_def teardown_def settle_def issue_def)

lemma resource_run_refresh_handle:
  "refresh_handle (resource_run evs r) = refresh_handle r"
  by (induction evs arbitrary: r) (simp_all add: resource_step_refresh_handle)

lemma status_refresh_delivered:
  "state r \<noteq> Initial \<Longrightarrow>
     StatusContextType.refresh (WithAPIData_render StatusProvider (delivered r)) =
       (\<lambda>_. refresh_resource)"
  by (cases "state r") (simp_all add: delivered_def provider_callbacks)

lemma preferences_refresh_delivered:
  "state p \<noteq> Initial \<Longrightarrow>
     PreferencesContextType.refresh (WithAPIData_render PreferencesProvider (delivered p)) =
       (\<lambda>_. refresh_resource)"
  by (cases "state p") (simp_all add: delivered_def provider_callbacks)

lemma refresh_resource_live:
  assumes "\<not> torn_down r"
  shows "issued (refresh_resource r) = issued r @ [Suc (generation r)]
       \<and> generation (refresh_resource r) = Suc (generation r)
       \<and> timer (refresh_resource r) = False
       \<and> refresh_resource r \<noteq> r"
proof -
  have g: "generation (refresh_resource r) = Suc (generation r)"
    using assms by (simp add: refresh_resource_def issue_def)
  then have "refresh_resource r \<noteq> r"
    by (metis n_not_Suc_n)
  then show ?thesis
    using assms g by (simp add: refresh_resource_def issue_def)
qed

text \<open>
  C4, as the code has it. Take a live instance that has left the \<open>Initial\<close> state (it
  is in \<open>Ok\<close> or \<open>Err\<close>). The \<^verbatim>\<open>refresh\<close> that each provider publishes for it is
  the instance's own: invoking it is never a no-op, it issues exactly one new fetch at
  once, carrying the next generation, and leaves no timer pending; and after any further
  events the provider publishes the same callback again, the instance keeping the same
  handle. The render callbacks \<^verbatim>\<open>renderOk\<close> and \<^verbatim>\<open>renderErr\<close> pass on whatever
  callback they receive. For an instance in the \<open>Initial\<close> state, however,
  \<^verbatim>\<open>renderInitial\<close> receives no callback and publishes the module constant
  \<^verbatim>\<open>initialStatus\<close> (\<^verbatim>\<open>initialPreferences\<close>), the same object at every render,
  whose \<^verbatim>\<open>refresh\<close> is \<^verbatim>\<open>() => {}\<close>: invoking it changes nothing and issues
  no fetch.
\<close>

theorem providers_publish_refresh:
  assumes "state r \<noteq> Initial" and "\<not> torn_down r"
      and "state p \<noteq> Initial" and "\<not> torn_down p"
  shows "StatusContextType.refresh (WithAPIData_render StatusProvider (delivered r)) d r =
           refresh_resource r
       \<and> issued (StatusContextType.refresh (WithAPIData_render StatusProvider (delivered r)) d r) =
           issued r @ [Suc (generation r)]
       \<and> timer (StatusContextType.refresh (WithAPIData_render StatusProvider (delivered r)) d r) =
           False
       \<and> StatusContextType.refresh (WithAPIData_render StatusProvider (delivered r)) d r \<noteq> r
       \<and> StatusContextType.refresh
             (WithAPIData_render StatusProvider (delivered (resource_run evs r))) =
           StatusContextType.refresh (WithAPIData_render StatusProvider (delivered r))
       \<and> refresh_handle (resource_run evs r) = refresh_handle r
       \<and> PreferencesContextType.refresh (WithAPIData_render PreferencesProvider (delivered p)) d' p =
           refresh_resource p
       \<and> issued (PreferencesContextType.refresh
             (WithAPIData_render PreferencesProvider (delivered p)) d' p) =
           issued p @ [Suc (generation p)]
       \<and> timer (PreferencesContextType.refresh
             (WithAPIData_render PreferencesProvider (delivered p)) d' p) = False
       \<and> PreferencesContextType.refresh
             (WithAPIData_render PreferencesProvider (delivered p)) d' p \<noteq> p
       \<and> PreferencesContextType.refresh
             (WithAPIData_render PreferencesProvider (delivered (resource_run evs' p))) =
           PreferencesContextType.refresh (WithAPIData_render PreferencesProvider (delivered p))
       \<and> refresh_handle (resource_run evs' p) = refresh_handle p
       \<and> StatusContextType.refresh (renderOk StatusProvider data c) = c
       \<and> StatusContextType.refresh (renderErr StatusProvider e c) = c
       \<and> PreferencesContextType.refresh (renderOk PreferencesProvider fetched c') = c'
       \<and> PreferencesContextType.refresh (renderErr PreferencesProvider e' c') = c'
       \<and> StatusContextType.refresh
             (WithAPIData_render StatusProvider (delivered (r0\<lparr>state := Initial\<rparr>))) x w = w
       \<and> WithAPIData_render StatusProvider (delivered (r0\<lparr>state := Initial\<rparr>)) = initialStatus
       \<and> renderInitial StatusProvider () = initialStatus
       \<and> PreferencesContextType.refresh
             (WithAPIData_render PreferencesProvider (delivered (p0\<lparr>state := Initial\<rparr>))) x' w' = w'
       \<and> WithAPIData_render PreferencesProvider (delivered (p0\<lparr>state := Initial\<rparr>)) =
           initialPreferences
       \<and> renderInitial PreferencesProvider () = initialPreferences"
proof -
  have r1: "StatusContextType.refresh (WithAPIData_render StatusProvider (delivered r)) =
              (\<lambda>_. refresh_resource)"
    using assms(1) by (rule status_refresh_delivered)
  have r2: "StatusContextType.refresh
              (WithAPIData_render StatusProvider (delivered (resource_run evs r))) =
              (\<lambda>_. refresh_resource)"
    using assms(1) by (intro status_refresh_delivered resource_run_not_Initial)
  have p1: "PreferencesContextType.refresh (WithAPIData_render PreferencesProvider (delivered p)) =
              (\<lambda>_. refresh_resource)"
    using assms(3) by (rule preferences_refresh_delivered)
  have p2: "PreferencesContextType.refresh
              (WithAPIData_render PreferencesProvider (delivered (resource_run evs' p))) =
              (\<lambda>_. refresh_resource)"
    using assms(3) by (intro preferences_refresh_delivered resource_run_not_Initial)
  have i: "delivered (r0\<lparr>state := Initial\<rparr>) = Initial"
          "delivered (p0\<lparr>state := Initial\<rparr>) = Initial"
    by (simp_all add: delivered_def)
  have init:
    "StatusContextType.refresh
       (WithAPIData_render StatusProvider (delivered (r0\<lparr>state := Initial\<rparr>))) x w = w"
    "WithAPIData_render StatusProvider (delivered (r0\<lparr>state := Initial\<rparr>)) = initialStatus"
    "PreferencesContextType.refresh
       (WithAPIData_render PreferencesProvider (delivered (p0\<lparr>state := Initial\<rparr>))) x' w' = w'"
    "WithAPIData_render PreferencesProvider (delivered (p0\<lparr>state := Initial\<rparr>)) =
       initialPreferences"
    by (simp_all add: i provider_callbacks initialStatus_def initialPreferences_def)
  have passed:
    "StatusContextType.refresh (renderOk StatusProvider data c) = c"
    "StatusContextType.refresh (renderErr StatusProvider e c) = c"
    "PreferencesContextType.refresh (renderOk PreferencesProvider fetched c') = c'"
    "PreferencesContextType.refresh (renderErr PreferencesProvider e' c') = c'"
    "renderInitial StatusProvider () = initialStatus"
    "renderInitial PreferencesProvider () = initialPreferences"
    by (simp_all add: provider_callbacks)
  show ?thesis
    using refresh_resource_live [OF assms(2)] refresh_resource_live [OF assms(4)] init passed
    by (simp add: r1 r2 p1 p2 resource_run_refresh_handle)
qed

text \<open>
  A status instance polling every 5000 ms whose first fetch resolved, and a one-shot
  preferences instance whose first fetch failed: invoking the published \<^verbatim>\<open>refresh\<close>
  issues the second fetch of each.
\<close>

theorem providers_publish_refresh_witness:
  "state (resolved 0 \<lparr>ApiStatus.status = ''enabled''\<rparr>
            (create () (Some \<lparr>intervalMs = 5000, ignoreCancelErrors = True\<rparr>)
               :: (ApiStatus, unit, unit) AsyncResource)) \<noteq> Initial
   \<and> \<not> torn_down (resolved 0 \<lparr>ApiStatus.status = ''enabled''\<rparr>
            (create () (Some \<lparr>intervalMs = 5000, ignoreCancelErrors = True\<rparr>)
               :: (ApiStatus, unit, unit) AsyncResource))
   \<and> state (rejected 0 (Failure ()) (create () None :: (ApiPreferences, unit, unit) AsyncResource))
       \<noteq> Initial
   \<and> \<not> torn_down (rejected 0 (Failure ()) (create () None :: (ApiPreferences, unit, unit) AsyncResource))
   \<and> issued
        (StatusContextType.refresh
           (WithAPIData_render StatusProvider
              (delivered (resolved 0 \<lparr>ApiStatus.status = ''enabled''\<rparr>
                 (create () (Some \<lparr>intervalMs = 5000, ignoreCancelErrors = True\<rparr>)
                    :: (ApiStatus, unit, unit) AsyncResource))))
           None
           (resolved 0 \<lparr>ApiStatus.status = ''enabled''\<rparr>
              (create () (Some \<lparr>intervalMs = 5000, ignoreCancelErrors = True\<rparr>)))) = [0, 1]
   \<and> issued
        (PreferencesContextType.refresh
           (WithAPIData_render PreferencesProvider
              (delivered (rejected 0 (Failure ())
                 (create () None :: (ApiPreferences, unit, unit) AsyncResource))))
           None
           (rejected 0 (Failure ()) (create () None))) = [0, 1]"
proof -
  let ?r = "resolved 0 \<lparr>ApiStatus.status = ''enabled''\<rparr>
              (create () (Some \<lparr>intervalMs = 5000, ignoreCancelErrors = True\<rparr>)
                 :: (ApiStatus, unit, unit) AsyncResource)"
  let ?p = "rejected 0 (Failure ()) (create () None :: (ApiPreferences, unit, unit) AsyncResource)"
  have r: "state ?r \<noteq> Initial" "\<not> torn_down ?r" "issued ?r = [0]" "generation ?r = 0"
    by (simp_all add: resolved_def create_def applies_def settle_def)
  have p: "state ?p \<noteq> Initial" "\<not> torn_down ?p" "issued ?p = [0]" "generation ?p = 0"
    by (simp_all add: rejected_def create_def applies_def settle_def ignores_cancel_def)
  note t = providers_publish_refresh [OF r(1) r(2) p(1) p(2)]
  have "issued (StatusContextType.refresh
          (WithAPIData_render StatusProvider (delivered ?r)) None ?r) = [0, 1]"
    using t [THEN conjunct2, THEN conjunct1, of None] by (simp add: r)
  moreover have "issued (PreferencesContextType.refresh
          (WithAPIData_render PreferencesProvider (delivered ?p)) None ?p) = [0, 1]"
    using t [THEN conjunct2, THEN conjunct2, THEN conjunct2, THEN conjunct2, THEN conjunct2,
             THEN conjunct2, THEN conjunct2, THEN conjunct1, of None]
    by (simp add: p)
  ultimately show ?thesis
    using r(1,2) p(1,2) by simp
qed

text \<open>
  C4, as the claim states it, fails in the \<open>Initial\<close> state: with no API call issued so
  far, invoking the \<^verbatim>\<open>refresh\<close> that \<^verbatim>\<open>StatusProvider\<close> publishes through
  \<^verbatim>\<open>renderInitial\<close> leaves the list of API calls empty, so
  \<^verbatim>\<open>api.getStatus\<close> has not been called again.
\<close>

theorem initial_refresh_is_noop:
  "requests
     (StatusContextType.refresh
        (renderInitial
           (StatusProvider ::
              (ApiStatus, unit, (ApiStatus, Env) refresh_fn, Env StatusContextType) WithAPIDataProps)
           ())
        None
        \<lparr>loggedIn = True, requests = [], cookie = [], pushed = []\<rparr>) = []
   \<and> requests
     (StatusContextType.refresh
        (WithAPIData_render StatusProvider
           (Initial :: (ApiStatus, unit, (ApiStatus, Env) refresh_fn) AsyncResourceState))
        None
        \<lparr>loggedIn = True, requests = [], cookie = [], pushed = []\<rparr>) = []"
  by (simp add: provider_callbacks initialStatus_def)

end
